theory Spec2Isabelle
  imports Main "HOL-Library.AList" "HOL-Library.Sublist"
begin

section \<open>Python values used by the vote plugin\<close>

text \<open>
  A Python \<open>str\<close> is modelled by the bytes of its UTF-8 encoding, so that the Chinese
  literals of \<open>plugin.py\<close> can be written down exactly. Character classes (\<open>\s\<close>,
  \<open>\d\<close>, \<open>str.strip\<close>, \<open>int\<close>) are modelled on the ASCII range; the model is exact
  for strings whose non-ASCII characters are neither Unicode whitespace nor Unicode
  digits. Floating point numbers are not part of the value model.
\<close>

definition is_space :: "char \<Rightarrow> bool" where
  "is_space c \<longleftrightarrow> (let n = (of_char c :: nat) in (9 \<le> n \<and> n \<le> 13) \<or> (28 \<le> n \<and> n \<le> 32))"

definition is_digit :: "char \<Rightarrow> bool" where
  "is_digit c \<longleftrightarrow> (let n = (of_char c :: nat) in 48 \<le> n \<and> n \<le> 57)"

definition digit_val :: "char \<Rightarrow> nat" where
  "digit_val c = of_char c - 48"

definition digit_chr :: "nat \<Rightarrow> char" where
  "digit_chr d = char_of (48 + d)"

text \<open>\<open>s.strip()\<close>\<close>

definition strip :: "string \<Rightarrow> string" where
  "strip s = rev (dropWhile is_space (rev (dropWhile is_space s)))"

text \<open>
  \<open>int(s)\<close> for a string: surrounding whitespace is dropped, one sign is allowed, and the
  rest is a non-empty run of decimal digits in which single underscores may separate
  digits. \<open>None\<close> stands for \<open>ValueError\<close>. (CPython's configurable limit on the number
  of digits is not modelled.)
\<close>

fun dec_digits :: "bool \<Rightarrow> nat \<Rightarrow> string \<Rightarrow> nat option" where
  "dec_digits prev acc [] = (if prev then Some acc else None)"
| "dec_digits prev acc (c # cs) =
     (if is_digit c then dec_digits True (acc * 10 + digit_val c) cs
      else if c = CHR ''_'' \<and> prev then dec_digits False acc cs
      else None)"

definition py_int :: "string \<Rightarrow> int option" where
  "py_int s =
     (case strip s of
        [] \<Rightarrow> None
      | c # cs \<Rightarrow>
          if c = CHR ''-'' then map_option (\<lambda>n. - int n) (dec_digits False 0 cs)
          else if c = CHR ''+'' then map_option int (dec_digits False 0 cs)
          else map_option int (dec_digits False 0 (c # cs)))"

text \<open>\<open>str(n)\<close> for an integer.\<close>

fun str_of_nat :: "nat \<Rightarrow> string" where
  "str_of_nat n = (if n < 10 then [digit_chr n] else str_of_nat (n div 10) @ [digit_chr (n mod 10)])"

definition str_of_int :: "int \<Rightarrow> string" where
  "str_of_int i = (if i < 0 then CHR ''-'' # str_of_nat (nat (- i)) else str_of_nat (nat i))"

text \<open>
  The values that \<open>resp.json()\<close> and the message segments can hold. A \<open>PDict\<close> carries the
  items of the dictionary in insertion order, with string keys.
\<close>

datatype pyval =
    PNone
  | PBool bool
  | PInt int
  | PStr string
  | PList "pyval list"
  | PDict "(string \<times> pyval) list"

datatype exn = ValueError | AttributeError | TypeError

text \<open>Truthiness, as used by \<open>if message_id:\<close>.\<close>

fun py_truthy :: "pyval \<Rightarrow> bool" where
  "py_truthy PNone = False"
| "py_truthy (PBool b) = b"
| "py_truthy (PInt i) = (i \<noteq> 0)"
| "py_truthy (PStr s) = (s \<noteq> [])"
| "py_truthy (PList xs) = (xs \<noteq> [])"
| "py_truthy (PDict kvs) = (kvs \<noteq> [])"

text \<open>\<open>d.get(k, default)\<close>: \<open>AttributeError\<close> when the receiver is not a dictionary.\<close>

fun py_get :: "pyval \<Rightarrow> string \<Rightarrow> pyval \<Rightarrow> exn + pyval" where
  "py_get (PDict kvs) k dflt = Inr (case map_of kvs k of None \<Rightarrow> dflt | Some v \<Rightarrow> v)"
| "py_get _ k dflt = Inl AttributeError"

text \<open>\<open>v == 0\<close>: in Python \<open>False == 0\<close> holds as well.\<close>

fun py_eq_zero :: "pyval \<Rightarrow> bool" where
  "py_eq_zero (PInt i) = (i = 0)"
| "py_eq_zero (PBool b) = (\<not> b)"
| "py_eq_zero _ = False"

text \<open>
  \<open>len(v)\<close>: a string counts its characters (the bytes that are not UTF-8 continuation
  bytes); \<open>TypeError\<close> for values without a length.
\<close>

definition is_continuation :: "char \<Rightarrow> bool" where
  "is_continuation c \<longleftrightarrow> (let n = (of_char c :: nat) in 128 \<le> n \<and> n < 192)"

fun py_len :: "pyval \<Rightarrow> exn + nat" where
  "py_len (PList xs) = Inr (length xs)"
| "py_len (PDict kvs) = Inr (length kvs)"
| "py_len (PStr s) = Inr (length (filter (\<lambda>c. \<not> is_continuation c) s))"
| "py_len _ = Inl TypeError"

text \<open>
  \<open>repr\<close> and \<open>str\<close>. \<open>repr\<close> of a string picks the quote as CPython does and escapes the
  quote, the backslash and the ASCII control characters.
\<close>

definition hex_chr :: "nat \<Rightarrow> char" where
  "hex_chr d = (if d < 10 then char_of (48 + d) else char_of (87 + d))"

definition repr_char :: "char \<Rightarrow> char \<Rightarrow> string" where
  "repr_char q c =
     (let n = (of_char c :: nat) in
      if c = q \<or> c = CHR 0x5C then [CHR 0x5C, c]
      else if n = 9 then [CHR 0x5C, CHR ''t'']
      else if n = 10 then [CHR 0x5C, CHR ''n'']
      else if n = 13 then [CHR 0x5C, CHR ''r'']
      else if n < 32 \<or> n = 127 then [CHR 0x5C, CHR ''x'', hex_chr (n div 16), hex_chr (n mod 16)]
      else [c])"

definition repr_str :: "string \<Rightarrow> string" where
  "repr_str s =
     (let q = (if CHR 0x27 \<in> set s \<and> CHR 0x22 \<notin> set s then CHR 0x22 else CHR 0x27)
      in q # concat (map (repr_char q) s) @ [q])"

fun join :: "string \<Rightarrow> string list \<Rightarrow> string" where
  "join sep [] = []"
| "join sep [x] = x"
| "join sep (x # y # ys) = x @ sep @ join sep (y # ys)"

fun py_repr :: "pyval \<Rightarrow> string" where
  "py_repr PNone = ''None''"
| "py_repr (PBool b) = (if b then ''True'' else ''False'')"
| "py_repr (PInt i) = str_of_int i"
| "py_repr (PStr s) = repr_str s"
| "py_repr (PList xs) = ''['' @ join '', '' (map py_repr xs) @ '']''"
| "py_repr (PDict kvs) =
     ''{'' @ join '', '' (map (\<lambda>(k, v). repr_str k @ '': '' @ py_repr v) kvs) @ ''}''"

definition py_str :: "pyval \<Rightarrow> string" where
  "py_str v = (case v of PStr s \<Rightarrow> s | _ \<Rightarrow> py_repr v)"


section \<open>String literals of the source\<close>

text \<open>
  Each literal is the UTF-8 encoding of the literal in \<open>plugin.py\<close>; the comment gives
  the line and an English gloss.
\<close>

text \<open>Lines 236 and 265: the command word, slash followed by "vote-mute".\<close>

definition cmd_prefix :: string where
  "cmd_prefix =
     [CHR 0x2F, CHR 0xE6, CHR 0x8A, CHR 0x95, CHR 0xE7, CHR 0xA5, CHR 0xA8, CHR 0xE7,
      CHR 0xA6, CHR 0x81, CHR 0xE8, CHR 0xA8, CHR 0x80]"

text \<open>Line 409: loudspeaker sign, "vote result - user ".\<close>

definition txt_result_head :: string where
  "txt_result_head =
     [CHR 0xF0, CHR 0x9F, CHR 0x93, CHR 0xA2, CHR 0x20, CHR 0xE6, CHR 0x8A, CHR 0x95,
      CHR 0xE7, CHR 0xA5, CHR 0xA8, CHR 0xE7, CHR 0xBB, CHR 0x93, CHR 0xE6, CHR 0x9E,
      CHR 0x9C, CHR 0x20, CHR 0x2D, CHR 0x20, CHR 0xE7, CHR 0x94, CHR 0xA8, CHR 0xE6,
      CHR 0x88, CHR 0xB7, CHR 0x20]"

text \<open>Line 410: "[check mark] approve votes: ".\<close>

definition txt_result_yes :: string where
  "txt_result_yes =
     [CHR 0x5B, CHR 0xE2, CHR 0x9C, CHR 0x85, CHR 0x5D, CHR 0x20, CHR 0xE5, CHR 0x90,
      CHR 0x8C, CHR 0xE6, CHR 0x84, CHR 0x8F, CHR 0xE7, CHR 0xA5, CHR 0xA8, CHR 0x3A,
      CHR 0x20]"

text \<open>Line 411: "[question mark] reject votes: ".\<close>

definition txt_result_no :: string where
  "txt_result_no =
     [CHR 0x5B, CHR 0xE2, CHR 0x9D, CHR 0x93, CHR 0x5D, CHR 0x20, CHR 0xE5, CHR 0x8F,
      CHR 0x8D, CHR 0xE5, CHR 0xAF, CHR 0xB9, CHR 0xE7, CHR 0xA5, CHR 0xA8, CHR 0x3A,
      CHR 0x20]"

text \<open>Line 414: "Vote passed! The user will be muted for ".\<close>

definition txt_passed_1 :: string where
  "txt_passed_1 =
     [CHR 0xE6, CHR 0x8A, CHR 0x95, CHR 0xE7, CHR 0xA5, CHR 0xA8, CHR 0xE9, CHR 0x80,
      CHR 0x9A, CHR 0xE8, CHR 0xBF, CHR 0x87, CHR 0xEF, CHR 0xBC, CHR 0x81, CHR 0xE8,
      CHR 0xAF, CHR 0xA5, CHR 0xE7, CHR 0x94, CHR 0xA8, CHR 0xE6, CHR 0x88, CHR 0xB7,
      CHR 0xE5, CHR 0xB0, CHR 0x86, CHR 0xE8, CHR 0xA2, CHR 0xAB, CHR 0xE7, CHR 0xA6,
      CHR 0x81, CHR 0xE8, CHR 0xA8, CHR 0x80, CHR 0x20]"

text \<open>Line 414: " minutes." with the ideographic full stop.\<close>

definition txt_passed_2 :: string where
  "txt_passed_2 =
     [CHR 0x20, CHR 0xE5, CHR 0x88, CHR 0x86, CHR 0xE9, CHR 0x92, CHR 0x9F, CHR 0xE3,
      CHR 0x80, CHR 0x82]"

text \<open>Line 417: "Vote not passed, the user stays free."\<close>

definition txt_not_passed :: string where
  "txt_not_passed =
     [CHR 0xE6, CHR 0x8A, CHR 0x95, CHR 0xE7, CHR 0xA5, CHR 0xA8, CHR 0xE6, CHR 0x9C,
      CHR 0xAA, CHR 0xE9, CHR 0x80, CHR 0x9A, CHR 0xE8, CHR 0xBF, CHR 0x87, CHR 0xEF,
      CHR 0xBC, CHR 0x8C, CHR 0xE8, CHR 0xAF, CHR 0xA5, CHR 0xE7, CHR 0x94, CHR 0xA8,
      CHR 0xE6, CHR 0x88, CHR 0xB7, CHR 0xE4, CHR 0xBF, CHR 0x9D, CHR 0xE7, CHR 0x95,
      CHR 0x99, CHR 0xE8, CHR 0x87, CHR 0xAA, CHR 0xE7, CHR 0x94, CHR 0xB1, CHR 0xE3,
      CHR 0x80, CHR 0x82]"

text \<open>Line 310: loudspeaker sign, "group vote-mute started", newline, "target user: @".\<close>

definition txt_proposal_1 :: string where
  "txt_proposal_1 =
     [CHR 0xF0, CHR 0x9F, CHR 0x93, CHR 0xA2, CHR 0x20, CHR 0xE7, CHR 0xBE, CHR 0xA4,
      CHR 0xE6, CHR 0x8A, CHR 0x95, CHR 0xE7, CHR 0xA5, CHR 0xA8, CHR 0xE7, CHR 0xA6,
      CHR 0x81, CHR 0xE8, CHR 0xA8, CHR 0x80, CHR 0xE5, CHR 0x8F, CHR 0x91, CHR 0xE8,
      CHR 0xB5, CHR 0xB7, CHR 0x0A, CHR 0xE7, CHR 0x9B, CHR 0xAE, CHR 0xE6, CHR 0xA0,
      CHR 0x87, CHR 0xE7, CHR 0x94, CHR 0xA8, CHR 0xE6, CHR 0x88, CHR 0xB7, CHR 0x3A,
      CHR 0x20, CHR 0x40]"

text \<open>Line 310: newline, "mute duration: ".\<close>

definition txt_proposal_2 :: string where
  "txt_proposal_2 =
     [CHR 0x0A, CHR 0xE7, CHR 0xA6, CHR 0x81, CHR 0xE8, CHR 0xA8, CHR 0x80, CHR 0xE6,
      CHR 0x97, CHR 0xB6, CHR 0xE9, CHR 0x95, CHR 0xBF, CHR 0x3A, CHR 0x20]"

text \<open>Line 310: " minutes", newline, "how to vote: [button] approve / [question mark] reject", newline, "voting time: ".\<close>

definition txt_proposal_3 :: string where
  "txt_proposal_3 =
     [CHR 0x20, CHR 0xE5, CHR 0x88, CHR 0x86, CHR 0xE9, CHR 0x92, CHR 0x9F, CHR 0x0A,
      CHR 0xE6, CHR 0x8A, CHR 0x95, CHR 0xE7, CHR 0xA5, CHR 0xA8, CHR 0xE6, CHR 0x96,
      CHR 0xB9, CHR 0xE5, CHR 0xBC, CHR 0x8F, CHR 0x3A, CHR 0x20, CHR 0x5B, CHR 0xE6,
      CHR 0x8C, CHR 0x89, CHR 0xE9, CHR 0x92, CHR 0xAE, CHR 0x5D, CHR 0x20, CHR 0xE5,
      CHR 0x90, CHR 0x8C, CHR 0xE6, CHR 0x84, CHR 0x8F, CHR 0x20, CHR 0x2F, CHR 0x20,
      CHR 0x5B, CHR 0xE2, CHR 0x9D, CHR 0x93, CHR 0x5D, CHR 0x20, CHR 0xE5, CHR 0x8F,
      CHR 0x8D, CHR 0xE5, CHR 0xAF, CHR 0xB9, CHR 0x0A, CHR 0xE6, CHR 0x8A, CHR 0x95,
      CHR 0xE7, CHR 0xA5, CHR 0xA8, CHR 0xE6, CHR 0x97, CHR 0xB6, CHR 0xE9, CHR 0x97,
      CHR 0xB4, CHR 0x3A, CHR 0x20]"

text \<open>Line 310: " seconds".\<close>

definition txt_proposal_4 :: string where
  "txt_proposal_4 =
     [CHR 0x20, CHR 0xE7, CHR 0xA7, CHR 0x92]"

text \<open>Line 325: "vote started".\<close>

definition msg_started :: string where
  "msg_started =
     [CHR 0xE6, CHR 0x8A, CHR 0x95, CHR 0xE7, CHR 0xA5, CHR 0xA8, CHR 0xE5, CHR 0xB7,
      CHR 0xB2, CHR 0xE5, CHR 0x8F, CHR 0x91, CHR 0xE8, CHR 0xB5, CHR 0xB7]"

text \<open>Line 327: "sending the vote message failed".\<close>

definition msg_send_failed :: string where
  "msg_send_failed =
     [CHR 0xE5, CHR 0x8F, CHR 0x91, CHR 0xE9, CHR 0x80, CHR 0x81, CHR 0xE6, CHR 0x8A,
      CHR 0x95, CHR 0xE7, CHR 0xA5, CHR 0xA8, CHR 0xE6, CHR 0xB6, CHR 0x88, CHR 0xE6,
      CHR 0x81, CHR 0xAF, CHR 0xE5, CHR 0xA4, CHR 0xB1, CHR 0xE8, CHR 0xB4, CHR 0xA5]"

section \<open>Registry, configuration and the outside world\<close>

text \<open>
  One entry of the global dictionary \<open>vote_summaries\<close> (lines 315 to 322). The dictionary
  is an association list in insertion order, keyed by \<open>str(message_id)\<close>.
\<close>

record vote_info =
  group_id :: string
  target_user_id :: string
  target_name :: string
  minutes :: int
  yes :: nat
  no :: nat

type_synonym registry = "(string \<times> vote_info) list"

text \<open>The options read from \<open>config_data\<close>, and \<open>DEFAULT_CONFIG\<close> (lines 238 to 243).\<close>

record config =
  default_minutes :: int
  vote_duration :: int

definition DEFAULT_CONFIG :: config where
  "DEFAULT_CONFIG = \<lparr>default_minutes = 1, vote_duration = 60\<rparr>"

text \<open>
  The outcome of one HTTP exchange with the backend: \<open>Failed\<close> is any exception raised
  inside the \<open>try\<close> block by the session, the request or \<open>resp.json()\<close>; \<open>Response d\<close> is
  the decoded body.
\<close>

datatype http = Failed | Response pyval

text \<open>The four user-visible replies sent with \<open>self.send_text\<close> (lines 266, 280, 284, 289 and 305).\<close>

datatype reply = AskForTarget | GroupChatOnly | VoteRunning | TargetNotRecognised

text \<open>
  What a run does to the outside world, in order: replies to the requester, the three
  kinds of request to the backend with their payload, and the scheduling of the
  resolution task (line 324).
\<close>

datatype event =
    SendText reply
  | PostSendGroupMsg int string
  | PostFetchEmojiLike int string string
  | PostSetGroupBan int int int
  | CreateTask string

section \<open>Backend clients\<close>

text \<open>
  \<open>send_group_text_via_napcat\<close> (lines 144 to 163). The payload is built before the
  \<open>try\<close>, so \<open>int(group_id)\<close> raises to the caller; everything after it is caught and
  yields \<open>None\<close>. The function suspends between the request and the response, so the
  model has the two halves separately.
\<close>

definition send_request :: "string \<Rightarrow> string \<Rightarrow> exn + event" where
  "send_request gid txt =
     (case py_int gid of
        None \<Rightarrow> Inl ValueError
      | Some g \<Rightarrow> Inr (PostSendGroupMsg g txt))"

definition send_response :: "http \<Rightarrow> pyval" where
  "send_response h =
     (case h of
        Failed \<Rightarrow> PNone
      | Response d \<Rightarrow>
          (case py_get d ''data'' (PDict []) of
             Inl e \<Rightarrow> PNone
           | Inr inner \<Rightarrow>
               (case py_get inner ''message_id'' PNone of
                  Inl e \<Rightarrow> PNone
                | Inr m \<Rightarrow> m)))"

definition send_group_text_via_napcat :: "string \<Rightarrow> string \<Rightarrow> http \<Rightarrow> (exn + pyval) \<times> event list" where
  "send_group_text_via_napcat gid txt h =
     (case send_request gid txt of
        Inl e \<Rightarrow> (Inl e, [])
      | Inr rq \<Rightarrow> (Inr (send_response h), [rq]))"

text \<open>
  The reaction count read from one response (lines 372 to 377 and 395 to 400): the length
  of \<open>data.emojiLikesList\<close> when \<open>retcode == 0\<close>; every other response, and every
  exception, leaves the count at its initial 0.
\<close>

definition likes_of :: "pyval \<Rightarrow> exn + nat" where
  "likes_of d =
     (case py_get d ''retcode'' PNone of
        Inl e \<Rightarrow> Inl e
      | Inr rc \<Rightarrow>
          if py_eq_zero rc then
            (case py_get d ''data'' (PDict []) of
               Inl e \<Rightarrow> Inl e
             | Inr inner \<Rightarrow>
                 (case py_get inner ''emojiLikesList'' (PList []) of
                    Inl e \<Rightarrow> Inl e
                  | Inr likes \<Rightarrow> py_len likes))
          else Inr 0)"

definition count_of :: "http \<Rightarrow> nat" where
  "count_of h =
     (case h of
        Failed \<Rightarrow> 0
      | Response d \<Rightarrow> (case likes_of d of Inl e \<Rightarrow> 0 | Inr n \<Rightarrow> n))"

text \<open>
  One of the two \<open>try\<close> blocks of the tally (lines 359 to 379 and 382 to 402):
  \<open>int(message_id)\<close> is inside the \<open>try\<close>, so when it fails no request is made and the
  count stays 0.
\<close>

definition fetch_count :: "string \<Rightarrow> string \<Rightarrow> string \<Rightarrow> http \<Rightarrow> nat \<times> event list" where
  "fetch_count message_id emoji_id emoji_type h =
     (case py_int message_id of
        None \<Rightarrow> (0, [])
      | Some m \<Rightarrow> (count_of h, [PostFetchEmojiLike m emoji_id emoji_type]))"

definition EMOJI_YES_ID :: string where "EMOJI_YES_ID = ''424''"
definition EMOJI_NO_ID :: string where "EMOJI_NO_ID = ''10068''"
definition EMOJI_NO_TYPE :: string where "EMOJI_NO_TYPE = ''2''"

text \<open>
  \<open>set_group_ban_via_napcat\<close> (lines 189 to 209). The payload, with both \<open>int\<close>
  conversions and \<open>minutes * 60\<close>, is built before the \<open>try\<close>; the response only decides
  which line is logged, and the function returns \<open>None\<close> whatever the backend answered.
\<close>

definition set_group_ban_via_napcat :: "string \<Rightarrow> string \<Rightarrow> int \<Rightarrow> http \<Rightarrow> (exn + unit) \<times> event list" where
  "set_group_ban_via_napcat gid uid mins h =
     (case py_int gid of
        None \<Rightarrow> (Inl ValueError, [])
      | Some g \<Rightarrow>
          (case py_int uid of
             None \<Rightarrow> (Inl ValueError, [])
           | Some u \<Rightarrow> (Inr (), [PostSetGroupBan g u (mins * 60)])))"



section \<open>The command \<open>VoteBanCommand\<close>\<close>



text \<open>
  What \<open>execute\<close> reads from the inbound message: the text used for the bare-command
  test (lines 261 to 264), the message content (lines 252 to 258: a plain string or a
  list of segments), the group and sender that \<open>_resolve_ctx_from_message_any\<close> returns
  (line 277), and the two groups of \<open>self.matched_groups\<close>.
\<close>

datatype content = ContentStr string | ContentList "pyval list"

record cmd_input =
  full_command :: string
  message_parts :: content
  ctx_group_id :: "string option"
  ctx_sender_qq :: "string option"
  matched_target :: "string option"
  matched_minutes :: "string option"

text \<open>\<open>re.search(r"@(\d+)", s)\<close>, group 1 (lines 270 to 272): the digits of the leftmost \<open>@\<close> that digits follow.\<close>

fun search_at_digits :: "string \<Rightarrow> string option" where
  "search_at_digits [] = None"
| "search_at_digits (c # cs) =
     (if c = CHR ''@'' \<and> takeWhile is_digit cs \<noteq> [] then Some (takeWhile is_digit cs)
      else search_at_digits cs)"

text \<open>Lines 269 to 275: a plain string is replaced by at most one synthetic \<open>at\<close> segment.\<close>

definition segments_of :: "content \<Rightarrow> pyval list" where
  "segments_of mp =
     (case mp of
        ContentList segs \<Rightarrow> segs
      | ContentStr s \<Rightarrow>
          (case search_at_digits s of
             Some qq_number \<Rightarrow> [PDict [(''type'', PStr ''at''), (''data'', PDict [(''qq'', PStr qq_number)])]]
           | None \<Rightarrow> []))"

text \<open>\<open>not x\<close> for an optional string: \<open>None\<close> and the empty string are false.\<close>

definition falsy :: "string option \<Rightarrow> bool" where
  "falsy x \<longleftrightarrow> x = None \<or> x = Some []"

text \<open>Line 283: \<open>any(v.get('group_id') == group_id for v in vote_summaries.values())\<close>.\<close>

definition has_active_in_room :: "registry \<Rightarrow> string \<Rightarrow> bool" where
  "has_active_in_room reg g = list_ex (\<lambda>(k, v). group_id v = g) reg"

text \<open>
  Lines 292 to 295: \<open>int(matched or default)\<close>, falling back to the default when \<open>int\<close>
  raises.
\<close>

definition minutes_of :: "config \<Rightarrow> string option \<Rightarrow> int" where
  "minutes_of cfg m =
     (if falsy m then default_minutes cfg
      else (case py_int (the m) of None \<Rightarrow> default_minutes cfg | Some n \<Rightarrow> n))"

text \<open>\<open>seg.get('data', {}).get('qq')\<close> for a segment that is a dictionary.\<close>

definition qq_of :: "pyval \<Rightarrow> exn + pyval" where
  "qq_of seg =
     (case py_get seg ''data'' (PDict []) of
        Inl e \<Rightarrow> Inl e
      | Inr d \<Rightarrow> py_get d ''qq'' PNone)"

text \<open>
  The loop of lines 297 to 302: the first \<open>at\<close> segment whose \<open>str(qq)\<close> is the target,
  or the target without its leading \<open>@\<close>. A segment whose \<open>data\<close> is not a dictionary
  raises out of the loop.
\<close>

definition is_at_segment :: "pyval \<Rightarrow> bool" where
  "is_at_segment seg \<longleftrightarrow>
     (case seg of PDict kvs \<Rightarrow> map_of kvs ''type'' = Some (PStr ''at'') | _ \<Rightarrow> False)"

fun find_target :: "string \<Rightarrow> pyval list \<Rightarrow> exn + string option" where
  "find_target target_str [] = Inr None"
| "find_target target_str (seg # segs) =
     (if is_at_segment seg then
        (case qq_of seg of
           Inl e \<Rightarrow> Inl e
         | Inr q \<Rightarrow>
             if py_str q = target_str
                \<or> (take 1 target_str = ''@'' \<and> py_str q = drop 1 target_str)
             then Inr (Some (py_str q))
             else find_target target_str segs)
      else find_target target_str segs)"

text \<open>Line 310, the proposal announcement.\<close>

definition proposal_text :: "string \<Rightarrow> int \<Rightarrow> int \<Rightarrow> string" where
  "proposal_text target_str mins duration =
     txt_proposal_1 @ target_str @ txt_proposal_2 @ str_of_int mins @ txt_proposal_3
       @ str_of_int duration @ txt_proposal_4"

text \<open>
  \<open>execute\<close> suspends once, at the \<open>await\<close> of line 312, while the announcement is on its
  way. \<open>execute_admit\<close> is the code up to that point (lines 245 to 312, with the request
  of \<open>send_group_text_via_napcat\<close>): it either finishes the call, with a return value or
  an exception, or leaves it suspended with the local variables that the rest needs.
  It reads the registry and never writes it.
\<close>

record pending =
  p_group_id :: string
  p_target_user_id :: string
  p_target_str :: string
  p_minutes :: int

datatype admission = Finished "exn + (bool \<times> string \<times> bool)" | Suspended pending

definition execute_admit :: "config \<Rightarrow> registry \<Rightarrow> cmd_input \<Rightarrow> admission \<times> event list" where
  "execute_admit cfg reg inp =
     (if strip (full_command inp) = cmd_prefix then
        (Finished (Inr (False, ''no_target'', True)), [SendText AskForTarget])
      else if falsy (ctx_group_id inp) \<or> falsy (ctx_sender_qq inp) then
        (Finished (Inr (False, ''not_in_group'', True)), [SendText GroupChatOnly])
      else if has_active_in_room reg (the (ctx_group_id inp)) then
        (Finished (Inr (False, ''vote_in_progress'', True)), [SendText VoteRunning])
      else if falsy (matched_target inp) then
        (Finished (Inr (False, ''no_target'', True)), [SendText TargetNotRecognised])
      else
        let gid = the (ctx_group_id inp);
            target_str = the (matched_target inp);
            mins = minutes_of cfg (matched_minutes inp)
        in
        (case find_target target_str (segments_of (message_parts inp)) of
           Inl e \<Rightarrow> (Finished (Inl e), [])
         | Inr found \<Rightarrow>
             if falsy found then
               (Finished (Inr (False, ''target_id_not_found'', True)), [SendText TargetNotRecognised])
             else
               (case send_request gid (proposal_text target_str mins (vote_duration cfg)) of
                  Inl e \<Rightarrow> (Finished (Inl e), [])
                | Inr rq \<Rightarrow>
                    (Suspended \<lparr>p_group_id = gid, p_target_user_id = the found,
                                p_target_str = target_str, p_minutes = mins\<rparr>, [rq]))))"

text \<open>
  \<open>execute_resume\<close> is the rest (lines 312 to 327), run when the response to the
  announcement arrives: a truthy message identifier stores the record under
  \<open>str(message_id)\<close> and schedules the resolution task; anything else returns the failure
  tuple and touches nothing.
\<close>

definition new_vote :: "pending \<Rightarrow> vote_info" where
  "new_vote p =
     \<lparr>group_id = p_group_id p, target_user_id = p_target_user_id p,
      target_name = p_target_str p, minutes = p_minutes p, yes = 0, no = 0\<rparr>"

definition execute_resume :: "registry \<Rightarrow> pending \<Rightarrow> http \<Rightarrow> (bool \<times> string \<times> bool) \<times> registry \<times> event list" where
  "execute_resume reg p h =
     (let message_id = send_response h in
      if py_truthy message_id then
        ((True, msg_started, False),
         AList.update (py_str message_id) (new_vote p) reg,
         [CreateTask (py_str message_id)])
      else ((False, msg_send_failed, True), reg, []))"

text \<open>A call of \<open>execute\<close> that nothing interleaves with: both halves in a row.\<close>

definition execute :: "config \<Rightarrow> registry \<Rightarrow> cmd_input \<Rightarrow> http \<Rightarrow> (exn + (bool \<times> string \<times> bool)) \<times> registry \<times> event list" where
  "execute cfg reg inp h =
     (case execute_admit cfg reg inp of
        (Finished r, ev) \<Rightarrow> (r, reg, ev)
      | (Suspended p, ev) \<Rightarrow>
          (case execute_resume reg p h of (r, reg', ev') \<Rightarrow> (Inr r, reg', ev @ ev')))"

section \<open>Resolution: \<open>_end_vote_after_delay\<close>\<close>

text \<open>
  Lines 409 to 417: the outcome announcement, three lines with the target and the two
  counts, then the verdict.
\<close>

definition passed_text :: "int \<Rightarrow> string" where
  "passed_text mins = txt_passed_1 @ str_of_int mins @ txt_passed_2"

definition result_head :: "vote_info \<Rightarrow> string" where
  "result_head v =
     txt_result_head @ target_name v @ [CHR 0x0A]
       @ txt_result_yes @ str_of_nat (yes v) @ [CHR 0x0A]
       @ txt_result_no @ str_of_nat (no v) @ [CHR 0x0A]"

definition result_text :: "vote_info \<Rightarrow> string" where
  "result_text v =
     result_head v @ (if yes v > no v then passed_text (minutes v) else txt_not_passed)"

text \<open>
  Lines 404 to 420, with the two counts in hand: the counts are written into the record
  (which is the object held by the registry), the mute is requested when the vote
  passes, the announcement is posted and the record is popped. An exception of either
  client ends the task where it is raised.
\<close>

definition conclude_vote :: "registry \<Rightarrow> string \<Rightarrow> vote_info \<Rightarrow> nat \<Rightarrow> nat \<Rightarrow> http \<Rightarrow> http \<Rightarrow> (exn + unit) \<times> registry \<times> event list" where
  "conclude_vote reg message_id vote_info yes_count no_count ban_http post_http =
     (let v = vote_info\<lparr>yes := yes_count, no := no_count\<rparr>;
          reg1 = AList.update message_id v reg;
          (banned, ev_ban) =
            (if yes_count > no_count
             then set_group_ban_via_napcat (group_id v) (target_user_id v) (minutes v) ban_http
             else (Inr (), []))
      in
      case banned of
        Inl e \<Rightarrow> (Inl e, reg1, ev_ban)
      | Inr _ \<Rightarrow>
          (case send_group_text_via_napcat (group_id v) (result_text v) post_http of
             (Inl e, ev_post) \<Rightarrow> (Inl e, reg1, ev_ban @ ev_post)
           | (Inr _, ev_post) \<Rightarrow> (Inr (), AList.delete message_id reg1, ev_ban @ ev_post)))"

text \<open>
  The task body after the sleep (lines 344 to 420): look the record up, return at once
  when it is gone, otherwise tally both reactions and conclude. The four \<open>http\<close>
  arguments are the backend's answers to the approve query, the reject query, the mute
  request and the announcement.
\<close>

definition end_vote_after_delay :: "registry \<Rightarrow> string \<Rightarrow> http \<Rightarrow> http \<Rightarrow> http \<Rightarrow> http \<Rightarrow> (exn + unit) \<times> registry \<times> event list" where
  "end_vote_after_delay reg message_id yes_http no_http ban_http post_http =
     (case map_of reg message_id of
        None \<Rightarrow> (Inr (), reg, [])
      | Some vote_info \<Rightarrow>
          (case fetch_count message_id EMOJI_YES_ID ''1'' yes_http of
             (yes_count, ev_yes) \<Rightarrow>
               (case fetch_count message_id EMOJI_NO_ID EMOJI_NO_TYPE no_http of
                  (no_count, ev_no) \<Rightarrow>
                    (case conclude_vote reg message_id vote_info yes_count no_count ban_http post_http of
                       (r, reg', ev) \<Rightarrow> (r, reg', ev_yes @ ev_no @ ev)))))"

section \<open>Overlapping calls on the event loop\<close>

text \<open>
  The plugin runs on an \<open>asyncio\<close> event loop: a coroutine runs alone until it awaits,
  and other coroutines run while it is suspended. For \<open>execute\<close> the only suspension
  after the admission check is the announcement (line 312), so a run of several calls is
  a sequence of steps, each one either the first half of a new call or the second half
  of a suspended one, given the response it waited for.
\<close>

datatype action = Begin cmd_input | Resume nat http

record loop_state =
  votes :: registry
  waiting :: "pending list"
  returned :: "(exn + (bool \<times> string \<times> bool)) list"

definition loop_step :: "config \<Rightarrow> loop_state \<Rightarrow> action \<Rightarrow> loop_state" where
  "loop_step cfg s a =
     (case a of
        Begin inp \<Rightarrow>
          (case fst (execute_admit cfg (votes s) inp) of
             Finished r \<Rightarrow> s\<lparr>returned := returned s @ [r]\<rparr>
           | Suspended p \<Rightarrow> s\<lparr>waiting := waiting s @ [p]\<rparr>)
      | Resume i h \<Rightarrow>
          (if i < length (waiting s) then
             (case execute_resume (votes s) (waiting s ! i) h of
                (r, reg', ev) \<Rightarrow>
                  s\<lparr>votes := reg', waiting := take i (waiting s) @ drop (Suc i) (waiting s),
                    returned := returned s @ [Inr r]\<rparr>)
           else s))"

definition loop_run :: "config \<Rightarrow> loop_state \<Rightarrow> action list \<Rightarrow> loop_state" where
  "loop_run cfg s as = foldl (loop_step cfg) s as"

text \<open>The room invariant: no two entries of the registry belong to the same group.\<close>

definition one_vote_per_room :: "registry \<Rightarrow> bool" where
  "one_vote_per_room reg \<longleftrightarrow> distinct (map (\<lambda>(k, v). group_id v) reg)"


section \<open>Observing a run\<close>

text \<open>The announcements posted and the mute requests issued by a run, in order.\<close>

fun announcements :: "event list \<Rightarrow> (int \<times> string) list" where
  "announcements [] = []"
| "announcements (PostSendGroupMsg g txt # ev) = (g, txt) # announcements ev"
| "announcements (_ # ev) = announcements ev"

fun ban_requests :: "event list \<Rightarrow> (int \<times> int \<times> int) list" where
  "ban_requests [] = []"
| "ban_requests (PostSetGroupBan g u d # ev) = (g, u, d) # ban_requests ev"
| "ban_requests (_ # ev) = ban_requests ev"

fun scheduled_tasks :: "event list \<Rightarrow> string list" where
  "scheduled_tasks [] = []"
| "scheduled_tasks (CreateTask k # ev) = k # scheduled_tasks ev"
| "scheduled_tasks (_ # ev) = scheduled_tasks ev"


text \<open>
  Sample data for the closed theorems below: the body the backend answers to a
  successful \<open>send_group_msg\<close>, and to a \<open>fetch_emoji_like\<close> with \<open>n\<close> reactions.
\<close>

definition message_response :: "int \<Rightarrow> http" where
  "message_response n =
     Response (PDict [(''status'', PStr ''ok''), (''retcode'', PInt 0),
                      (''data'', PDict [(''message_id'', PInt n)])])"

definition likes_response :: "nat \<Rightarrow> http" where
  "likes_response n =
     Response (PDict [(''status'', PStr ''ok''), (''retcode'', PInt 0),
                      (''data'', PDict [(''emojiLikesList'', PList (replicate n (PDict [(''tinyId'', PStr ''7'')])))])])"


definition sample_vote :: vote_info where
  "sample_vote =
     \<lparr>group_id = ''1001'', target_user_id = ''12345'', target_name = ''12345'',
      minutes = 5, yes = 0, no = 0\<rparr>"

text \<open>
  Four inbound commands for group 1001. The first is a segment list whose \<open>at\<close>
  segment mentions everybody (\<open>qq\<close> is \<open>all\<close>); the second and third are plain strings
  that mute user 12345 for 5 and for 0 minutes; the fourth is a plain string that names
  its target by a nickname.
\<close>

definition propose_at_all :: cmd_input where
  "propose_at_all =
     \<lparr>full_command = cmd_prefix @ '' @all'',
      message_parts = ContentList [PDict [(''type'', PStr ''text''), (''data'', PDict [(''text'', PStr (cmd_prefix @ '' ''))])],
                                   PDict [(''type'', PStr ''at''), (''data'', PDict [(''qq'', PStr ''all'')])]],
      ctx_group_id = Some ''1001'', ctx_sender_qq = Some ''42'',
      matched_target = Some ''all'', matched_minutes = None\<rparr>"

definition propose_plain :: cmd_input where
  "propose_plain =
     \<lparr>full_command = cmd_prefix @ '' @12345 5'',
      message_parts = ContentStr (cmd_prefix @ '' @12345 5''),
      ctx_group_id = Some ''1001'', ctx_sender_qq = Some ''42'',
      matched_target = Some ''12345'', matched_minutes = Some ''5''\<rparr>"

definition propose_zero :: cmd_input where
  "propose_zero =
     \<lparr>full_command = cmd_prefix @ '' @12345 0'',
      message_parts = ContentStr (cmd_prefix @ '' @12345 0''),
      ctx_group_id = Some ''1001'', ctx_sender_qq = Some ''42'',
      matched_target = Some ''12345'', matched_minutes = Some ''0''\<rparr>"


definition vote_on_all :: vote_info where
  "vote_on_all =
     \<lparr>group_id = ''1001'', target_user_id = ''all'', target_name = ''all'',
      minutes = 1, yes = 0, no = 0\<rparr>"

section \<open>Basic facts\<close>






lemma send_group_text_numeric:
  "py_int gid = Some g \<Longrightarrow>
   send_group_text_via_napcat gid txt h = (Inr (send_response h), [PostSendGroupMsg g txt])"
  by (simp add: send_group_text_via_napcat_def send_request_def)

lemma set_group_ban_numeric:
  "py_int gid = Some g \<Longrightarrow> py_int uid = Some u \<Longrightarrow>
   set_group_ban_via_napcat gid uid m h = (Inr (), [PostSetGroupBan g u (m * 60)])"
  by (simp add: set_group_ban_via_napcat_def)

lemma conclude_vote_numeric:
  assumes "py_int (group_id v) = Some g" and "py_int (target_user_id v) = Some u"
  shows "conclude_vote reg mid v a r bh ph =
           (Inr (), AList.delete mid reg,
            (if a > r then [PostSetGroupBan g u (minutes v * 60)] else [])
              @ [PostSendGroupMsg g (result_text (v\<lparr>yes := a, no := r\<rparr>))])"
  using assms
  by (simp add: conclude_vote_def Let_def send_group_text_numeric set_group_ban_numeric
      delete_update_same)

lemma end_vote_present:
  assumes "map_of reg mid = Some v"
    and "fetch_count mid EMOJI_YES_ID ''1'' yh = (a, ev_a)"
    and "fetch_count mid EMOJI_NO_ID EMOJI_NO_TYPE nh = (r, ev_r)"
  shows "end_vote_after_delay reg mid yh nh bh ph =
           (case conclude_vote reg mid v a r bh ph of (res, reg', ev) \<Rightarrow> (res, reg', ev_a @ ev_r @ ev))"
  using assms by (simp add: end_vote_after_delay_def)

lemma end_vote_numeric:
  assumes "map_of reg mid = Some v"
    and "py_int (group_id v) = Some g" and "py_int (target_user_id v) = Some u"
    and "fetch_count mid EMOJI_YES_ID ''1'' yh = (a, ev_a)"
    and "fetch_count mid EMOJI_NO_ID EMOJI_NO_TYPE nh = (r, ev_r)"
  shows "end_vote_after_delay reg mid yh nh bh ph =
           (Inr (), AList.delete mid reg,
            ev_a @ ev_r @ (if a > r then [PostSetGroupBan g u (minutes v * 60)] else [])
              @ [PostSendGroupMsg g (result_text (v\<lparr>yes := a, no := r\<rparr>))])"
  by (simp add: end_vote_present[OF assms(1,4,5)] conclude_vote_numeric[OF assms(2,3)])

lemma py_int_samples:
  "py_int ''1001'' = Some 1001" "py_int ''12345'' = Some 12345" "py_int ''101'' = Some 101"
  "py_int ''102'' = Some 102" "py_int ''all'' = None"
  by code_simp+

lemma count_of_likes_response: "count_of (likes_response n) = n"
  by (simp add: count_of_def likes_response_def likes_of_def)

lemma fetch_count_likes_response:
  "fetch_count ''101'' e t (likes_response n) = (n, [PostFetchEmojiLike 101 e t])"
  by (simp add: fetch_count_def py_int_samples count_of_likes_response)

lemma end_vote_absent:
  "map_of reg mid = None \<Longrightarrow> end_vote_after_delay reg mid yh nh bh ph = (Inr (), reg, [])"
  by (simp add: end_vote_after_delay_def)

lemma ban_requests_append: "ban_requests (xs @ ys) = ban_requests xs @ ban_requests ys"
  by (induction xs rule: ban_requests.induct) simp_all


lemma fetch_count_events:
  "fetch_count mid e t h = (n, ev) \<Longrightarrow> ban_requests ev = [] \<and> announcements ev = []"
  by (auto simp: fetch_count_def split: option.splits)



lemma fetch_count_numeric:
  "py_int mid = Some m \<Longrightarrow> fetch_count mid e t h = (count_of h, [PostFetchEmojiLike m e t])"
  by (simp add: fetch_count_def)


lemma execute_admit_fails:
  "execute_admit cfg reg inp = (Finished r, ev) \<Longrightarrow>
     r \<noteq> Inr (True, msg_started, False) \<and> scheduled_tasks ev = []"
  by (auto simp: execute_admit_def Let_def split: if_splits sum.splits)

lemma execute_admit_suspended:
  "execute_admit cfg reg inp = (Suspended p, ev) \<Longrightarrow> scheduled_tasks ev = []"
  by (auto simp: execute_admit_def Let_def send_request_def split: if_splits sum.splits option.splits)

lemma execute_admit_suspended_room:
  "execute_admit cfg reg inp = (Suspended p, ev) \<Longrightarrow>
     ctx_group_id inp = Some (p_group_id p) \<and> \<not> has_active_in_room reg (p_group_id p)"
  by (auto simp: execute_admit_def Let_def falsy_def split: if_splits sum.splits)



lemma sample_ids:
  "map_of [(''101'', sample_vote)] ''101'' = Some sample_vote"
  "py_int (group_id sample_vote) = Some 1001"
  "py_int (target_user_id sample_vote) = Some 12345"
  by (simp_all add: sample_vote_def py_int_samples)


lemma sample_passing_run:
  "end_vote_after_delay [(''101'', sample_vote)] ''101'' (likes_response 2) (likes_response 1) Failed Failed =
     (Inr (), [],
      [PostFetchEmojiLike 101 EMOJI_YES_ID ''1'', PostFetchEmojiLike 101 EMOJI_NO_ID EMOJI_NO_TYPE,
       PostSetGroupBan 1001 12345 300,
       PostSendGroupMsg 1001 (result_text (sample_vote\<lparr>yes := 2, no := 1\<rparr>))])"
  using end_vote_numeric[OF sample_ids fetch_count_likes_response fetch_count_likes_response, of 2 1 Failed Failed]
  by (simp add: sample_vote_def)

lemma sample_failed_proposal:
  "execute DEFAULT_CONFIG [] propose_plain Failed =
     (Inr (False, msg_send_failed, True), [], [PostSendGroupMsg 1001 (proposal_text ''12345'' 5 60)])"
  by code_simp

lemma sample_admission:
  "execute_admit DEFAULT_CONFIG [] propose_plain =
     (Suspended \<lparr>p_group_id = ''1001'', p_target_user_id = ''12345'', p_target_str = ''12345'', p_minutes = 5\<rparr>,
      [PostSendGroupMsg 1001 (proposal_text ''12345'' 5 60)])"
  by code_simp











lemma update_entries:
  "(k', v') \<in> set (AList.update k v reg) \<Longrightarrow> v' = v \<or> (k', v') \<in> set reg"
  by (induction reg) (auto split: if_splits)

lemma groups_update:
  "\<not> has_active_in_room reg (group_id v) \<Longrightarrow> one_vote_per_room reg \<Longrightarrow> one_vote_per_room (AList.update k v reg)"
proof (induction reg)
  case Nil
  then show ?case by (simp add: one_vote_per_room_def)
next
  case (Cons e reg)
  obtain k' v' where e: "e = (k', v')" by (cases e)
  have na: "\<not> has_active_in_room reg (group_id v)" and ne: "group_id v' \<noteq> group_id v"
    using Cons.prems(1) by (auto simp: has_active_in_room_def e)
  have d: "one_vote_per_room reg" and ni: "group_id v' \<notin> set (map (\<lambda>(k, v). group_id v) reg)"
    using Cons.prems(2) by (auto simp: one_vote_per_room_def e)
  show ?case
  proof (cases "k' = k")
    case True
    have "group_id v \<notin> set (map (\<lambda>(k, v). group_id v) reg)"
      using na by (auto simp: has_active_in_room_def list_ex_iff)
    then show ?thesis using True d by (simp add: e one_vote_per_room_def)
  next
    case False
    have "group_id v' \<notin> set (map (\<lambda>(k, v). group_id v) (AList.update k v reg))"
      using ni ne update_entries[of _ _ k v reg] by force
    then show ?thesis using False Cons.IH[OF na d] by (simp add: e one_vote_per_room_def)
  qed
qed

lemma execute_keeps_one_vote_per_room:
  assumes "one_vote_per_room reg" and "execute cfg reg inp h = (res, reg', ev)"
  shows "one_vote_per_room reg'"
proof (cases "execute_admit cfg reg inp")
  case (Pair adm ev0)
  show ?thesis
  proof (cases adm)
    case (Finished r)
    then show ?thesis using Pair assms by (simp add: execute_def)
  next
    case (Suspended p)
    have "\<not> has_active_in_room reg (group_id (new_vote p))"
      using execute_admit_suspended_room[of cfg reg inp p ev0] Pair Suspended by (simp add: new_vote_def)
    then have "one_vote_per_room (AList.update k (new_vote p) reg)" for k
      using assms(1) by (rule groups_update)
    then show ?thesis
      using Pair Suspended assms by (auto simp: execute_def execute_resume_def Let_def split: if_splits)
  qed
qed

lemma second_proposal_rejected:
  assumes "has_active_in_room reg g" and "ctx_group_id inp = Some g" and "g \<noteq> []"
    and "\<not> falsy (ctx_sender_qq inp)" and "strip (full_command inp) \<noteq> cmd_prefix"
  shows "execute cfg reg inp h = (Inr (False, ''vote_in_progress'', True), reg, [SendText VoteRunning])"
  using assms by (simp add: execute_def execute_admit_def falsy_def)

lemma has_active_after_update:
  "has_active_in_room (AList.update k v reg) (group_id v)"
  by (induction reg) (auto simp: has_active_in_room_def)

lemma accepted_proposal_occupies_room:
  assumes "execute cfg reg inp h = (Inr (True, msg_started, False), reg', ev)"
  shows "\<exists>g. ctx_group_id inp = Some g \<and> has_active_in_room reg' g"
proof (cases "execute_admit cfg reg inp")
  case (Pair adm ev0)
  show ?thesis
  proof (cases adm)
    case (Finished r)
    then show ?thesis
      using Pair assms by (auto simp: execute_def execute_admit_def Let_def split: if_splits sum.splits)
  next
    case (Suspended p)
    have "ctx_group_id inp = Some (group_id (new_vote p))"
      using execute_admit_suspended_room[of cfg reg inp p ev0] Pair Suspended by (simp add: new_vote_def)
    moreover have "\<exists>k. reg' = AList.update k (new_vote p) reg"
      using Pair Suspended assms by (auto simp: execute_def execute_resume_def Let_def split: if_splits)
    ultimately show ?thesis using has_active_after_update by auto
  qed
qed



lemma conclude_vote_not_passing:
  assumes "\<not> a > r" and "py_int (group_id v) = Some g"
  shows "conclude_vote reg mid v a r bh ph =
           (Inr (), AList.delete mid reg, [PostSendGroupMsg g (result_text (v\<lparr>yes := a, no := r\<rparr>))])"
  using assms
  by (simp add: conclude_vote_def Let_def send_group_text_numeric delete_update_same)

lemma conclude_vote_raises:
  assumes "a > r" and "py_int (target_user_id v) = None"
  shows "conclude_vote reg mid v a r bh ph =
           (Inl ValueError, AList.update mid (v\<lparr>yes := a, no := r\<rparr>) reg, [])"
  using assms
  by (auto simp: conclude_vote_def Let_def set_group_ban_via_napcat_def split: option.splits)

lemma conclude_vote_ignores_ban_response:
  "conclude_vote reg mid v a r bh ph = conclude_vote reg mid v a r bh' ph"
  unfolding conclude_vote_def set_group_ban_via_napcat_def by (rule refl)

lemma groups_update_same:
  "map_of reg k = Some v \<Longrightarrow> group_id v' = group_id v \<Longrightarrow>
     map (\<lambda>(k, v). group_id v) (AList.update k v' reg) = map (\<lambda>(k, v). group_id v) reg"
  by (induction reg) (auto split: if_splits)

lemma groups_delete:
  "one_vote_per_room reg \<Longrightarrow> one_vote_per_room (AList.delete k reg)"
  by (simp add: one_vote_per_room_def AList.delete_eq distinct_map_filter)

lemma resolution_keeps_one_vote_per_room:
  assumes "one_vote_per_room reg" and "end_vote_after_delay reg mid yh nh bh ph = (res, reg', ev)"
  shows "one_vote_per_room reg'"
proof (cases "map_of reg mid")
  case None
  then show ?thesis using assms by (simp add: end_vote_absent)
next
  case (Some v)
  have upd: "one_vote_per_room (AList.update mid (v\<lparr>yes := a, no := r\<rparr>) reg)" for a r
    using assms(1) groups_update_same[OF Some, of "v\<lparr>yes := a, no := r\<rparr>"]
    by (simp add: one_vote_per_room_def)
  show ?thesis
    using assms(2) Some upd groups_delete[OF upd]
    by (auto simp: end_vote_after_delay_def conclude_vote_def Let_def
        split: prod.splits sum.splits if_splits)
qed

section \<open>The decision rule\<close>



section \<open>Tally failures\<close>



section \<open>Duration of the mute\<close>

text \<open>
  Claim C9. Every mute request that a resolution run issues carries the duration
  \<open>minutes * 60\<close> of the record, and a passing vote on a record with numeric identifiers
  issues exactly one such request.
\<close>

theorem ban_duration_is_sixty_times_minutes:
  assumes "map_of reg mid = Some v"
    and "end_vote_after_delay reg mid yh nh bh ph = (res, reg', ev)"
  shows "(\<forall>(g, u, d) \<in> set (ban_requests ev). d = minutes v * 60)
         \<and> (fst (fetch_count mid EMOJI_YES_ID ''1'' yh) > fst (fetch_count mid EMOJI_NO_ID EMOJI_NO_TYPE nh)
              \<and> py_int (group_id v) \<noteq> None \<and> py_int (target_user_id v) \<noteq> None
            \<longrightarrow> (\<exists>g u. ban_requests ev = [(g, u, minutes v * 60)]))"
proof -
  obtain a ev_a where fa: "fetch_count mid EMOJI_YES_ID ''1'' yh = (a, ev_a)"
    by (cases "fetch_count mid EMOJI_YES_ID ''1'' yh")
  obtain r ev_r where fr: "fetch_count mid EMOJI_NO_ID EMOJI_NO_TYPE nh = (r, ev_r)"
    by (cases "fetch_count mid EMOJI_NO_ID EMOJI_NO_TYPE nh")
  obtain res0 reg0 ev0 where c: "conclude_vote reg mid v a r bh ph = (res0, reg0, ev0)"
    by (cases "conclude_vote reg mid v a r bh ph")
  have ev: "ev = ev_a @ ev_r @ ev0"
    using end_vote_present[OF assms(1) fa fr, of bh ph] assms(2) c by simp
  have b0: "ban_requests ev = ban_requests ev0"
    using fetch_count_events[OF fa] fetch_count_events[OF fr] by (simp add: ev ban_requests_append)
  have 1: "\<forall>(g, u, d) \<in> set (ban_requests ev0). d = minutes v * 60"
    using c
    by (auto simp: conclude_vote_def Let_def set_group_ban_via_napcat_def
        send_group_text_via_napcat_def send_request_def ban_requests_append
        split: if_splits option.splits sum.splits prod.splits)
  have 2: "\<exists>g u. ban_requests ev0 = [(g, u, minutes v * 60)]"
    if "a > r" "py_int (group_id v) \<noteq> None" "py_int (target_user_id v) \<noteq> None"
  proof -
    from that obtain g u where "py_int (group_id v) = Some g" "py_int (target_user_id v) = Some u"
      by auto
    from conclude_vote_numeric[OF this, of reg mid a r bh ph] c that(1) show ?thesis by auto
  qed
  show ?thesis using 1 2 b0 fa fr by simp
qed

theorem ban_duration_is_sixty_times_minutes_witness:
  "ban_requests
     [PostFetchEmojiLike 101 EMOJI_YES_ID ''1'', PostFetchEmojiLike 101 EMOJI_NO_ID EMOJI_NO_TYPE,
      PostSetGroupBan 1001 12345 300,
      PostSendGroupMsg 1001 (result_text (sample_vote\<lparr>yes := 2, no := 1\<rparr>))]
   = [(1001, 12345, minutes sample_vote * 60)] \<and> minutes sample_vote * 60 = 300"
  using ban_duration_is_sixty_times_minutes[OF sample_ids(1) sample_passing_run]
  by (simp add: sample_vote_def)

section \<open>Resolving twice\<close>



section \<open>A proposal whose announcement fails\<close>

text \<open>
  Claim C7. When the announcement of a proposal yields no message identifier (the post
  fails, or the body carries no truthy \<open>message_id\<close>), the call does not succeed, the
  registry is left as it was and no resolution task is scheduled; a call that got as far
  as posting the announcement returns the "sending failed" tuple of line 327.
\<close>

theorem failed_announcement_leaves_registry:
  assumes "\<not> py_truthy (send_response h)" and "execute cfg reg inp h = (res, reg', ev)"
  shows "reg' = reg \<and> scheduled_tasks ev = [] \<and> res \<noteq> Inr (True, msg_started, False)
         \<and> (\<forall>p ev0. execute_admit cfg reg inp = (Suspended p, ev0) \<longrightarrow>
               res = Inr (False, msg_send_failed, True))"
proof (cases "execute_admit cfg reg inp")
  case (Pair adm ev0)
  show ?thesis
  proof (cases adm)
    case (Finished r)
    then show ?thesis
      using Pair assms(2) execute_admit_fails[of cfg reg inp r ev0] by (simp add: execute_def)
  next
    case (Suspended p)
    have "scheduled_tasks (ev0 @ []) = []"
      using execute_admit_suspended[of cfg reg inp p ev0] Pair Suspended by simp
    then show ?thesis
      using Pair Suspended assms by (auto simp: execute_def execute_resume_def Let_def)
  qed
qed

theorem failed_announcement_leaves_registry_witness:
  "\<not> py_truthy (send_response Failed)
   \<and> execute DEFAULT_CONFIG [] propose_plain Failed =
       (Inr (False, msg_send_failed, True), [], [PostSendGroupMsg 1001 (proposal_text ''12345'' 5 60)])
   \<and> scheduled_tasks [PostSendGroupMsg 1001 (proposal_text ''12345'' 5 60)] = []"
proof -
  have f: "\<not> py_truthy (send_response Failed)" by (simp add: send_response_def)
  show ?thesis
    using failed_announcement_leaves_registry[OF f sample_failed_proposal] sample_admission f
      sample_failed_proposal
    by simp
qed

section \<open>Minutes of the mute\<close>




section \<open>Target of the proposal\<close>




section \<open>Resolution that raises\<close>

text \<open>
  Claim C3 fails on the code. The proposal that mentions everybody is accepted and
  stores the target identifier \<open>all\<close>. When its vote passes (one approval, no
  rejection), \<open>set_group_ban_via_napcat\<close> raises \<open>ValueError\<close> at \<open>int(user_id)\<close>, which
  is outside its \<open>try\<close>: the task ends there, no announcement is posted and the record,
  with its counts written, stays in the registry.
\<close>

theorem resolution_leaks_record_when_mute_raises:
  "execute DEFAULT_CONFIG [] propose_at_all (message_response 101) =
     (Inr (True, msg_started, False), [(''101'', vote_on_all)],
      [PostSendGroupMsg 1001 (proposal_text ''all'' 1 60), CreateTask ''101''])
   \<and> end_vote_after_delay [(''101'', vote_on_all)] ''101''
        (likes_response 1) (likes_response 0) (message_response 0) (message_response 102) =
       (Inl ValueError, [(''101'', vote_on_all\<lparr>yes := 1\<rparr>)],
        [PostFetchEmojiLike 101 EMOJI_YES_ID ''1'', PostFetchEmojiLike 101 EMOJI_NO_ID EMOJI_NO_TYPE])"
  by code_simp

text \<open>
  Claim C6 fails on the code, by the same defect. For the passing vote (three approvals,
  one rejection) on the record with the target identifier \<open>all\<close>, the mute call fails by
  raising: no mute request and no announcement go out, so no verdict is reported, the
  record is still in the registry and its group still counts as having a vote running.
  A failure that the backend reports is harmless (\<open>conclude_vote_ignores_ban_response\<close>).
\<close>

theorem mute_failure_suppresses_announcement:
  "(case end_vote_after_delay [(''101'', vote_on_all)] ''101''
           (likes_response 3) (likes_response 1) Failed (message_response 102) of
      (res, reg', ev) \<Rightarrow>
        res = Inl ValueError \<and> announcements ev = [] \<and> ban_requests ev = []
        \<and> map_of reg' ''101'' = Some (vote_on_all\<lparr>yes := 3, no := 1\<rparr>)
        \<and> has_active_in_room reg' ''1001'')"
  by code_simp

section \<open>One vote per room\<close>

text \<open>
  Claim C2 fails on the code. Calls that do not overlap keep the room invariant
  (\<open>execute_keeps_one_vote_per_room\<close>, \<open>second_proposal_rejected\<close>), but the admission
  check of line 283 and the insertion of line 315 are separated by the \<open>await\<close> of line
  312. When a second call for the same group begins while the first one waits for its
  announcement, both pass the check against the empty registry, both are accepted, and
  the registry ends with two records of group 1001.
\<close>

theorem overlapping_proposals_share_a_room:
  "loop_run DEFAULT_CONFIG \<lparr>votes = [], waiting = [], returned = []\<rparr>
     [Begin propose_plain, Begin propose_zero,
      Resume 0 (message_response 101), Resume 0 (message_response 102)]
   = \<lparr>votes = [(''101'', sample_vote), (''102'', sample_vote\<lparr>minutes := 0\<rparr>)], waiting = [],
      returned = [Inr (True, msg_started, False), Inr (True, msg_started, False)]\<rparr>
   \<and> \<not> one_vote_per_room [(''101'', sample_vote), (''102'', sample_vote\<lparr>minutes := 0\<rparr>)]"
  by code_simp

end
